theory Spec2Isabelle
  imports Complex_Main "HOL-Library.Word"
begin

section \<open>Values of the upload module\<close>

text \<open>
  The module \<^verbatim>\<open>backend/app/api/upload.py\<close> keeps all of its state in files below
  \<^verbatim>\<open>uploads/\<close>. Byte strings are lists of 8-bit words, Python's unbounded integers are
  \<^typ>\<open>int\<close>, and Python's \<^verbatim>\<open>str\<close> is \<^typ>\<open>string\<close>.
\<close>

type_synonym bytes = "8 word list"

definition ALLOWED_AUDIO_TYPES :: "string set" where
  "ALLOWED_AUDIO_TYPES =
     {''audio/webm'', ''audio/wav'', ''audio/mp3'', ''audio/mpeg'', ''audio/ogg'',
      ''audio/m4a'', ''audio/aac''}"

definition MAX_FILE_SIZE :: int where
  "MAX_FILE_SIZE = 100 * 1024 * 1024"

definition CHUNK_SIZE :: int where
  "CHUNK_SIZE = 5 * 1024 * 1024"

text \<open>
  Exceptions are values. \<open>HTTPException\<close> carries the status code and the detail; each
  constructor of \<open>detail\<close> stands for one message template of the source, holding the
  values the template interpolates:
  \<^item> \<open>Unsupported_file_type t\<close>: \<^verbatim>\<open>f"Unsupported file type: {t}..."\<close>;
  \<^item> \<open>Invalid_file_extension e\<close>: \<^verbatim>\<open>f"Invalid file extension: {e}..."\<close>;
  \<^item> \<open>File_too_large\<close>: \<^verbatim>\<open>"File too large. Maximum size: 100MB"\<close>;
  \<^item> \<open>Upload_session_not_found\<close>, \<open>Access_denied\<close>: the two constant messages;
  \<^item> \<open>Invalid_chunk_number t\<close>: \<^verbatim>\<open>f"Invalid chunk number. Expected 1-{t}"\<close>;
  \<^item> \<open>Missing_chunks ms\<close>: \<^verbatim>\<open>f"Missing chunks: {sorted(missing_chunks)}"\<close>;
  \<^item> \<open>Upload_failed e\<close>, \<open>Chunk_upload_failed e\<close>, \<open>Complete_failed e\<close>: the three
    handlers \<^verbatim>\<open>except Exception as e\<close>, whose detail is a prefix followed by
    \<^verbatim>\<open>str(e)\<close>; the model keeps the exception \<open>e\<close> itself.
  \<open>JSONDecodeError\<close> is what \<^verbatim>\<open>json.loads\<close> raises on a session file that is empty.
\<close>

datatype detail =
    Unsupported_file_type "string option"
  | Invalid_file_extension string
  | File_too_large
  | Upload_session_not_found
  | Access_denied
  | Invalid_chunk_number int
  | Missing_chunks "int list"
  | Upload_failed exn
  | Chunk_upload_failed exn
  | Complete_failed exn
and exn =
    HTTPException nat detail
  | ZeroDivisionError
  | FileNotFoundError
  | PermissionError
  | JSONDecodeError

text \<open>
  The session metadata is the dictionary \<^verbatim>\<open>session_data\<close>, written as JSON to
  \<^verbatim>\<open>uploads/sessions/<upload_id>.json\<close>; the fields are its keys.
\<close>

record session_data =
  upload_id :: string
  file_id :: string
  user_id :: string
  filename :: string
  file_size :: int
  mime_type :: string
  chunk_size :: int
  total_chunks :: int
  uploaded_chunks :: "int list"
  created_at :: string

text \<open>
  The part of the file system the module touches. Every identifier that becomes a path
  component (an upload id, a user id, a file name) is one component, so each
  \<^verbatim>\<open>os.path.join\<close> of the source names one entry of one of three trees:
  \<^item> \<open>session_files\<close>: \<^verbatim>\<open>uploads/sessions/<upload_id>.json\<close>, holding the session;
  \<^item> \<open>chunk_dirs\<close>: the directory \<^verbatim>\<open>uploads/chunks/<upload_id>\<close> (absent until
    \<^verbatim>\<open>os.makedirs\<close> creates it) and the files in it;
  \<^item> \<open>audio_dirs\<close>: the directory \<^verbatim>\<open>uploads/audio/<user_id>\<close> and the files in it.
\<close>

record fs =
  session_files :: "string \<rightharpoonup> session_data"
  chunk_dirs :: "string \<rightharpoonup> (string \<rightharpoonup> bytes)"
  audio_dirs :: "string \<rightharpoonup> (string \<rightharpoonup> bytes)"

definition empty_fs :: fs where
  "empty_fs = \<lparr>session_files = Map.empty, chunk_dirs = Map.empty, audio_dirs = Map.empty\<rparr>"

text \<open>\<^verbatim>\<open>os.makedirs(dir, exist_ok=True)\<close> followed by opening a file in \<open>dir\<close> with mode
  \<^verbatim>\<open>'wb'\<close> and writing \<open>data\<close>: the directory is created when absent, the file is
  created or replaced.\<close>

definition write_file ::
  "(string \<rightharpoonup> (string \<rightharpoonup> bytes)) \<Rightarrow> string \<Rightarrow> string \<Rightarrow> bytes \<Rightarrow> (string \<rightharpoonup> (string \<rightharpoonup> bytes))" where
  "write_file tree dir name data =
     tree(dir \<mapsto> (case tree dir of None \<Rightarrow> Map.empty | Some d \<Rightarrow> d)(name \<mapsto> data))"

definition read_file ::
  "(string \<rightharpoonup> (string \<rightharpoonup> bytes)) \<Rightarrow> string \<Rightarrow> string \<Rightarrow> bytes option" where
  "read_file tree dir name = (case tree dir of None \<Rightarrow> None | Some d \<Rightarrow> d name)"

section \<open>Starting a chunked upload\<close>

record start_response =
  start_upload_id :: string
  start_file_id :: string
  start_total_chunks :: int
  start_chunk_size :: int
  start_message :: string

text \<open>
  \<open>start_chunked_upload\<close>. The two \<^verbatim>\<open>uuid.uuid4()\<close> values and the time stamp come from
  the environment and are parameters. The two \<^verbatim>\<open>raise HTTPException\<close> are outside any
  \<^verbatim>\<open>try\<close>; Python's \<^verbatim>\<open>//\<close> raises \<open>ZeroDivisionError\<close> on a zero divisor and is
  floor division otherwise, as \<open>div\<close> on \<^typ>\<open>int\<close> is.
\<close>

definition start_chunked_upload ::
  "fs \<Rightarrow> string \<Rightarrow> string \<Rightarrow> string \<Rightarrow> string \<Rightarrow> int \<Rightarrow> string \<Rightarrow> int \<Rightarrow> string
     \<Rightarrow> (exn + start_response) \<times> fs" where
  "start_chunked_upload st uuid1 uuid2 now fname fsize mtype csize current_user =
     (if mtype \<notin> ALLOWED_AUDIO_TYPES then
        (Inl (HTTPException 400 (Unsupported_file_type (Some mtype))), st)
      else if fsize > MAX_FILE_SIZE then
        (Inl (HTTPException 413 File_too_large), st)
      else if csize = 0 then
        (Inl ZeroDivisionError, st)
      else
        let total = (fsize + csize - 1) div csize;
            session = \<lparr>upload_id = uuid1, file_id = uuid2, user_id = current_user,
                       filename = fname, file_size = fsize, mime_type = mtype,
                       chunk_size = csize, total_chunks = total, uploaded_chunks = [],
                       created_at = now\<rparr>
        in (Inr \<lparr>start_upload_id = uuid1, start_file_id = uuid2,
                  start_total_chunks = total, start_chunk_size = csize,
                  start_message = ''Chunked upload session started''\<rparr>,
            st\<lparr>session_files := (session_files st)(uuid1 \<mapsto> session)\<rparr>))"

section \<open>Strings of the standard library\<close>

text \<open>Python's \<^verbatim>\<open>str(n)\<close> for a natural number: its decimal digits.\<close>

definition digit_char :: "nat \<Rightarrow> char" where
  "digit_char d = ''0123456789'' ! d"

function str_nat :: "nat \<Rightarrow> string" where
  "str_nat n = (if n < 10 then [digit_char n] else str_nat (n div 10) @ [digit_char (n mod 10)])"
  by pat_completeness auto
termination
  by (relation "measure id") auto

declare str_nat.simps [simp del]

definition str_int :: "int \<Rightarrow> string" where
  "str_int n = (if n < 0 then ''-'' @ str_nat (nat (- n)) else str_nat (nat n))"

definition zfill :: "nat \<Rightarrow> string \<Rightarrow> string" where
  "zfill w s = replicate (w - length s) CHR ''0'' @ s"

text \<open>The format specification \<^verbatim>\<open>{n:04d}\<close>: decimal, padded with zeros after the sign to
  four characters, longer when the number needs more.\<close>

definition format_04d :: "int \<Rightarrow> string" where
  "format_04d n = (if n < 0 then ''-'' @ zfill 3 (str_nat (nat (- n))) else zfill 4 (str_nat (nat n)))"

definition chunk_filename :: "int \<Rightarrow> string" where
  "chunk_filename chunk_num = ''chunk_'' @ format_04d chunk_num"

text \<open>\<^verbatim>\<open>str.lower\<close> on the ASCII letters (the characters of a \<^typ>\<open>string\<close> are bytes).\<close>

definition lower_char :: "char \<Rightarrow> char" where
  "lower_char c =
     (let n = (of_char c :: nat) in if 65 \<le> n \<and> n \<le> 90 then char_of (n + 32) else c)"

definition lower :: "string \<Rightarrow> string" where
  "lower s = map lower_char s"

text \<open>\<^verbatim>\<open>str.rfind\<close> for one character: the last index holding it, or \<open>-1\<close>.\<close>

definition rfind :: "char \<Rightarrow> string \<Rightarrow> int" where
  "rfind c p =
     (if c \<in> set p then int (length p) - 1 - int (length (takeWhile (\<lambda>x. x \<noteq> c) (rev p)))
      else - 1)"

text \<open>
  \<^verbatim>\<open>os.path.splitext\<close> (POSIX): the extension starts at the last dot of the last path
  component, unless only dots precede it in that component; the library's loop over the
  indices from \<open>sepIndex + 1\<close> up to \<open>dotIndex\<close> looks for a character that is not a dot.
\<close>

definition splitext :: "string \<Rightarrow> string \<times> string" where
  "splitext p =
     (let sepIndex = rfind CHR ''/'' p;
          dotIndex = rfind CHR ''.'' p
      in if dotIndex > sepIndex \<and>
            list_ex (\<lambda>ch. ch \<noteq> CHR ''.'')
              (take (nat (dotIndex - (sepIndex + 1))) (drop (nat (sepIndex + 1)) p))
         then (take (nat dotIndex) p, drop (nat dotIndex) p)
         else (p, []))"

section \<open>Uploading one chunk\<close>

record chunk_upload_response =
  chunk_id :: string
  chunk_upload_id :: string
  chunk_number :: int
  chunk_total_chunks :: int
  bytes_received :: int
  chunk_message :: string

text \<open>
  The body of the \<^verbatim>\<open>try\<close> of \<open>upload_chunk\<close>: the session file is looked up, the owner
  and the chunk number are checked, a chunk already listed is answered without any write,
  and otherwise the chunk file is written before the session file is rewritten with the
  number appended and the list sorted.
\<close>

definition upload_chunk_try ::
  "fs \<Rightarrow> string \<Rightarrow> int \<Rightarrow> bytes \<Rightarrow> string \<Rightarrow> (exn + chunk_upload_response) \<times> fs" where
  "upload_chunk_try st uid chunk_num content current_user =
     (case session_files st uid of
        None \<Rightarrow> (Inl (HTTPException 404 Upload_session_not_found), st)
      | Some session \<Rightarrow>
          if user_id session \<noteq> current_user then
            (Inl (HTTPException 403 Access_denied), st)
          else if chunk_num < 1 \<or> chunk_num > total_chunks session then
            (Inl (HTTPException 400 (Invalid_chunk_number (total_chunks session))), st)
          else if chunk_num \<in> set (uploaded_chunks session) then
            (Inr \<lparr>chunk_id = uid @ ''-'' @ str_int chunk_num, chunk_upload_id = uid,
                   chunk_number = chunk_num, chunk_total_chunks = total_chunks session,
                   bytes_received = 0, chunk_message = ''Chunk already uploaded''\<rparr>, st)
          else
            let st1 = st\<lparr>chunk_dirs :=
                          write_file (chunk_dirs st) uid (chunk_filename chunk_num) content\<rparr>;
                session1 = session\<lparr>uploaded_chunks :=
                                      sort (uploaded_chunks session @ [chunk_num])\<rparr>;
                st2 = st1\<lparr>session_files := (session_files st1)(uid \<mapsto> session1)\<rparr>
            in (Inr \<lparr>chunk_id = uid @ ''-'' @ str_int chunk_num, chunk_upload_id = uid,
                      chunk_number = chunk_num, chunk_total_chunks = total_chunks session1,
                      bytes_received = int (length content),
                      chunk_message = ''Chunk uploaded successfully''\<rparr>, st2))"

text \<open>
  \<open>upload_chunk\<close>: the whole body is inside \<^verbatim>\<open>try: ... except Exception as e\<close>, and
  \<open>HTTPException\<close> is an \<open>Exception\<close>, so every exception the body raises, its own
  \<open>HTTPException\<close>s included, leaves as status 500.
\<close>

definition upload_chunk ::
  "fs \<Rightarrow> string \<Rightarrow> int \<Rightarrow> bytes \<Rightarrow> string \<Rightarrow> (exn + chunk_upload_response) \<times> fs" where
  "upload_chunk st uid chunk_num content current_user =
     (case upload_chunk_try st uid chunk_num content current_user of
        (Inl e, st1) \<Rightarrow> (Inl (HTTPException 500 (Chunk_upload_failed e)), st1)
      | (Inr r, st1) \<Rightarrow> (Inr r, st1))"

section \<open>Completing a chunked upload\<close>

record upload_response =
  resp_file_id :: string
  resp_filename :: string
  resp_file_size :: int
  resp_mime_type :: string
  resp_upload_url :: "string option"
  resp_message :: string

text \<open>
  The loop \<^verbatim>\<open>for chunk_num in range(1, total_chunks + 1)\<close>: each chunk file is opened and
  read, its bytes are written to the end of the final file and counted. A chunk file
  that does not exist ends the loop with \<open>FileNotFoundError\<close>; what was written stays.
\<close>

fun combine_chunks ::
  "fs \<Rightarrow> string \<Rightarrow> int list \<Rightarrow> bytes \<Rightarrow> int \<Rightarrow> exn option \<times> bytes \<times> int" where
  "combine_chunks st uid [] final total_bytes = (None, final, total_bytes)"
| "combine_chunks st uid (chunk_num # rest) final total_bytes =
     (case read_file (chunk_dirs st) uid (chunk_filename chunk_num) of
        None \<Rightarrow> (Some FileNotFoundError, final, total_bytes)
      | Some chunk_data \<Rightarrow>
          combine_chunks st uid rest (final @ chunk_data)
            (total_bytes + int (length chunk_data)))"

text \<open>
  The two deletions of the cleanup. \<^verbatim>\<open>shutil.rmtree\<close> raises \<open>FileNotFoundError\<close> when
  the directory does not exist, \<^verbatim>\<open>os.remove\<close> when the file does not; the operating
  system may also refuse either (\<open>PermissionError\<close>), which the model takes from
  \<open>os_faults\<close>, a parameter of the call. A refused deletion removes nothing.
\<close>

record os_faults =
  rmtree_fails :: bool
  remove_fails :: bool

definition no_faults :: os_faults where
  "no_faults = \<lparr>rmtree_fails = False, remove_fails = False\<rparr>"

definition rmtree :: "os_faults \<Rightarrow> fs \<Rightarrow> string \<Rightarrow> exn + fs" where
  "rmtree env st uid =
     (case chunk_dirs st uid of
        None \<Rightarrow> Inl FileNotFoundError
      | Some d \<Rightarrow>
          if rmtree_fails env then Inl PermissionError
          else Inr (st\<lparr>chunk_dirs := (chunk_dirs st)(uid := None)\<rparr>))"

definition os_remove :: "os_faults \<Rightarrow> fs \<Rightarrow> string \<Rightarrow> exn + fs" where
  "os_remove env st uid =
     (case session_files st uid of
        None \<Rightarrow> Inl FileNotFoundError
      | Some s \<Rightarrow>
          if remove_fails env then Inl PermissionError
          else Inr (st\<lparr>session_files := (session_files st)(uid := None)\<rparr>))"

text \<open>\<^verbatim>\<open>os.path.splitext(name)[1] or ".webm"\<close>.\<close>

definition file_extension :: "string \<Rightarrow> string" where
  "file_extension name = (if snd (splitext name) = [] then ''.webm'' else snd (splitext name))"

text \<open>
  The body of the \<^verbatim>\<open>try\<close> of \<open>complete_chunked_upload\<close>. The task handed to
  \<^verbatim>\<open>background_tasks\<close> only prints and is left out.
\<close>

definition complete_chunked_upload_try ::
  "os_faults \<Rightarrow> fs \<Rightarrow> string \<Rightarrow> string \<Rightarrow> (exn + upload_response) \<times> fs" where
  "complete_chunked_upload_try env st uid current_user =
     (case session_files st uid of
        None \<Rightarrow> (Inl (HTTPException 404 Upload_session_not_found), st)
      | Some session \<Rightarrow>
          if user_id session \<noteq> current_user then
            (Inl (HTTPException 403 Access_denied), st)
          else
            let expected_chunks = [1..total_chunks session] in
            (if uploaded_chunks session \<noteq> expected_chunks then
              (Inl (HTTPException 400 (Missing_chunks
                 (sorted_list_of_set (set expected_chunks - set (uploaded_chunks session))))), st)
            else
              let safe_filename = file_id session @ file_extension (filename session);
                  (err, final, total_bytes) =
                     combine_chunks st uid [1..total_chunks session] [] 0;
                  st1 = st\<lparr>audio_dirs :=
                             write_file (audio_dirs st) current_user safe_filename final\<rparr>
              in (case err of
                   Some e \<Rightarrow> (Inl e, st1)
                 | None \<Rightarrow>
                     (case rmtree env st1 uid of
                        Inl e \<Rightarrow> (Inl e, st1)
                      | Inr st2 \<Rightarrow>
                          (case os_remove env st2 uid of
                             Inl e \<Rightarrow> (Inl e, st2)
                           | Inr st3 \<Rightarrow>
                               (Inr \<lparr>resp_file_id = file_id session,
                                      resp_filename = filename session,
                                      resp_file_size = total_bytes,
                                      resp_mime_type = mime_type session,
                                      resp_upload_url = None,
                                      resp_message = ''Chunked upload completed successfully''\<rparr>,
                                st3))))))"

text \<open>\<open>complete_chunked_upload\<close>: as in \<open>upload_chunk\<close>, the handler
  \<^verbatim>\<open>except Exception as e\<close> turns every exception of the body into status 500.\<close>

definition complete_chunked_upload ::
  "os_faults \<Rightarrow> fs \<Rightarrow> string \<Rightarrow> string \<Rightarrow> (exn + upload_response) \<times> fs" where
  "complete_chunked_upload env st uid current_user =
     (case complete_chunked_upload_try env st uid current_user of
        (Inl e, st1) \<Rightarrow> (Inl (HTTPException 500 (Complete_failed e)), st1)
      | (Inr r, st1) \<Rightarrow> (Inr r, st1))"

section \<open>Uploading a file in one request\<close>

text \<open>The fields of \<^verbatim>\<open>UploadFile\<close> the module reads, and the bytes \<^verbatim>\<open>file.read()\<close>
  returns.\<close>

record upload_file =
  uf_filename :: "string option"
  uf_content_type :: "string option"
  uf_size :: "int option"
  uf_content :: bytes

definition valid_extensions :: "string set" where
  "valid_extensions = {''.webm'', ''.wav'', ''.mp3'', ''.ogg'', ''.m4a'', ''.aac''}"

text \<open>\<open>validate_audio_file\<close> returns nothing or raises: \<open>None\<close> is the normal return.\<close>

definition validate_audio_file :: "upload_file \<Rightarrow> exn option" where
  "validate_audio_file file =
     (if (case uf_content_type file of None \<Rightarrow> True | Some t \<Rightarrow> t \<notin> ALLOWED_AUDIO_TYPES) then
        Some (HTTPException 400 (Unsupported_file_type (uf_content_type file)))
      else
        case uf_filename file of
          None \<Rightarrow> None
        | Some name \<Rightarrow>
            if name = [] then None
            else
              let ext = snd (splitext (lower name)) in
              if ext \<notin> valid_extensions then
                Some (HTTPException 400 (Invalid_file_extension ext))
              else None)"

text \<open>
  \<open>upload_audio_file\<close>. The validation and the size check are outside the \<^verbatim>\<open>try\<close>.
  \<^verbatim>\<open>if file.size and file.size > MAX_FILE_SIZE\<close> is false when \<open>file.size\<close> is \<open>None\<close> or
  \<open>0\<close>. Inside the \<^verbatim>\<open>try\<close> the directory is created, the content is read and written,
  and its length is reported; none of these raises in the model.
\<close>

definition upload_audio_file ::
  "fs \<Rightarrow> string \<Rightarrow> upload_file \<Rightarrow> string \<Rightarrow> (exn + upload_response) \<times> fs" where
  "upload_audio_file st uuid1 file current_user =
     (case validate_audio_file file of
        Some e \<Rightarrow> (Inl e, st)
      | None \<Rightarrow>
          if (case uf_size file of None \<Rightarrow> False | Some sz \<Rightarrow> sz \<noteq> 0 \<and> sz > MAX_FILE_SIZE) then
            (Inl (HTTPException 413 File_too_large), st)
          else
            let safe_filename =
                  uuid1 @ file_extension (case uf_filename file of None \<Rightarrow> [] | Some name \<Rightarrow> name);
                content = uf_content file;
                st1 = st\<lparr>audio_dirs :=
                           write_file (audio_dirs st) current_user safe_filename content\<rparr>;
                shown_name =
                  (case uf_filename file of
                     None \<Rightarrow> safe_filename
                   | Some name \<Rightarrow> if name = [] then safe_filename else name)
            in (Inr \<lparr>resp_file_id = uuid1, resp_filename = shown_name,
                      resp_file_size = int (length content),
                      resp_mime_type =
                        (case uf_content_type file of
                           None \<Rightarrow> ''audio/webm''
                         | Some t \<Rightarrow> if t = [] then ''audio/webm'' else t),
                      resp_upload_url = None,
                      resp_message = ''File uploaded successfully''\<rparr>, st1))"

section \<open>Reachable states\<close>




section \<open>The invariant of a session and example states\<close>

text \<open>What every stored session satisfies: the list of uploaded chunk numbers is sorted,
  has no duplicate and holds only numbers from 1 to \<open>total_chunks\<close>.\<close>

definition session_ok :: "session_data \<Rightarrow> bool" where
  "session_ok s \<longleftrightarrow>
     sorted (uploaded_chunks s) \<and> distinct (uploaded_chunks s) \<and>
     set (uploaded_chunks s) \<subseteq> {1..total_chunks s}"

text \<open>Example states: a session of two chunks started by \<open>alice\<close> on an empty file system,
  and the same after chunk 1 has been uploaded.\<close>

definition example_session :: session_data where
  "example_session =
     \<lparr>upload_id = ''u1'', file_id = ''f1'', user_id = ''alice'', filename = ''rec.wav'',
      file_size = 10, mime_type = ''audio/wav'', chunk_size = 5, total_chunks = 2,
      uploaded_chunks = [], created_at = ''2024-01-01''\<rparr>"

definition example_started :: fs where
  "example_started =
     snd (start_chunked_upload empty_fs ''u1'' ''f1'' ''2024-01-01'' ''rec.wav'' 10 ''audio/wav'' 5
            ''alice'')"

definition example_one_of_two :: fs where
  "example_one_of_two = snd (upload_chunk example_started ''u1'' 1 [1, 2, 3] ''alice'')"

text \<open>A session of one chunk with its chunk uploaded, and a session of no chunk at all
  (declared file size 0).\<close>

definition example_all_uploaded :: fs where
  "example_all_uploaded =
     snd (upload_chunk
            (snd (start_chunked_upload empty_fs ''u2'' ''f2'' ''2024-01-01'' ''memo.wav'' 3
                    ''audio/wav'' 5 ''alice''))
            ''u2'' 1 [1, 2, 3] ''alice'')"

definition example_zero_chunks :: fs where
  "example_zero_chunks =
     snd (start_chunked_upload empty_fs ''u3'' ''f3'' ''2024-01-01'' ''empty.wav'' 0 ''audio/wav''
            CHUNK_SIZE ''bob'')"

text \<open>A session of no chunk for the claim about assembly.\<close>

definition example_empty_recording :: fs where
  "example_empty_recording =
     snd (start_chunked_upload empty_fs ''u4'' ''f4'' ''2024-01-01'' ''silence.webm'' 0 ''audio/webm''
            5 ''carol'')"

section \<open>Requests that overlap\<close>

text \<open>
  The handlers are coroutines: at every \<^verbatim>\<open>await\<close> another request may run.
  \<open>upload_chunk\<close> reads the session file, awaits the chunk's bytes and the chunk file's
  write, and then rewrites the session file from the copy it read, opening it with mode
  \<^verbatim>\<open>'w'\<close> (which empties it) before writing; it takes no lock. The state seen by
  overlapping requests is the file system together with the session files that are open
  for rewriting and still empty.
\<close>

record io_state =
  disk :: fs
  empty_sessions :: "string set"

text \<open>
  The segments of one \<open>upload_chunk\<close> request, each running without interruption:
  \<^item> \<open>upload_chunk_begin\<close>: the session file is looked up and parsed and the checks are
    made; the request ends here with an answer (an exception already turned into status
    500 by the handler, or the answer for a chunk already listed), or goes on with its
    copy of the session;
  \<^item> \<open>upload_chunk_save\<close>: the chunk file is written;
  \<^item> \<open>upload_chunk_open\<close>: the session file is opened with mode \<^verbatim>\<open>'w'\<close>;
  \<^item> \<open>upload_chunk_finish\<close>: the copy, with the chunk number appended and the list
    sorted, is written to the session file and the answer is returned.
\<close>

definition upload_chunk_begin ::
  "io_state \<Rightarrow> string \<Rightarrow> int \<Rightarrow> string \<Rightarrow> (exn + chunk_upload_response) + session_data" where
  "upload_chunk_begin io uid chunk_num current_user =
     (if uid \<in> empty_sessions io then
        Inl (Inl (HTTPException 500 (Chunk_upload_failed JSONDecodeError)))
      else
        case session_files (disk io) uid of
          None \<Rightarrow>
            Inl (Inl (HTTPException 500
              (Chunk_upload_failed (HTTPException 404 Upload_session_not_found))))
        | Some session \<Rightarrow>
            if user_id session \<noteq> current_user then
              Inl (Inl (HTTPException 500 (Chunk_upload_failed (HTTPException 403 Access_denied))))
            else if chunk_num < 1 \<or> chunk_num > total_chunks session then
              Inl (Inl (HTTPException 500 (Chunk_upload_failed
                (HTTPException 400 (Invalid_chunk_number (total_chunks session))))))
            else if chunk_num \<in> set (uploaded_chunks session) then
              Inl (Inr \<lparr>chunk_id = uid @ ''-'' @ str_int chunk_num, chunk_upload_id = uid,
                         chunk_number = chunk_num, chunk_total_chunks = total_chunks session,
                         bytes_received = 0, chunk_message = ''Chunk already uploaded''\<rparr>)
            else Inr session)"

definition upload_chunk_save :: "io_state \<Rightarrow> string \<Rightarrow> int \<Rightarrow> bytes \<Rightarrow> io_state" where
  "upload_chunk_save io uid chunk_num content =
     io\<lparr>disk := (disk io)\<lparr>chunk_dirs :=
            write_file (chunk_dirs (disk io)) uid (chunk_filename chunk_num) content\<rparr>\<rparr>"

definition upload_chunk_open :: "io_state \<Rightarrow> string \<Rightarrow> io_state" where
  "upload_chunk_open io uid =
     io\<lparr>disk := (disk io)\<lparr>session_files := (session_files (disk io))(uid := None)\<rparr>,
        empty_sessions := insert uid (empty_sessions io)\<rparr>"

definition upload_chunk_finish ::
  "io_state \<Rightarrow> string \<Rightarrow> int \<Rightarrow> bytes \<Rightarrow> session_data \<Rightarrow> chunk_upload_response \<times> io_state" where
  "upload_chunk_finish io uid chunk_num content session =
     (let session1 = session\<lparr>uploaded_chunks := sort (uploaded_chunks session @ [chunk_num])\<rparr>
      in (\<lparr>chunk_id = uid @ ''-'' @ str_int chunk_num, chunk_upload_id = uid,
            chunk_number = chunk_num, chunk_total_chunks = total_chunks session1,
            bytes_received = int (length content),
            chunk_message = ''Chunk uploaded successfully''\<rparr>,
          io\<lparr>disk := (disk io)\<lparr>session_files := (session_files (disk io))(uid \<mapsto> session1)\<rparr>,
             empty_sessions := empty_sessions io - {uid}\<rparr>))"




section \<open>Devices of the proofs\<close>

text \<open>Reading a decimal numeral back, to show that distinct chunk numbers have distinct
  file names.\<close>

definition digit_val :: "char \<Rightarrow> nat" where
  "digit_val c = of_char c - 48"

definition nat_of_str :: "string \<Rightarrow> nat" where
  "nat_of_str s = foldl (\<lambda>acc c. 10 * acc + digit_val c) 0 s"

text \<open>A sequence of \<open>upload_chunk\<close> requests of one user for one upload, in the order of
  their arrival, and the bytes stored for a chunk number.\<close>

fun upload_chunks :: "fs \<Rightarrow> string \<Rightarrow> string \<Rightarrow> (int \<times> bytes) list \<Rightarrow> fs" where
  "upload_chunks st uid current_user [] = st"
| "upload_chunks st uid current_user ((chunk_num, content) # rest) =
     upload_chunks (snd (upload_chunk st uid chunk_num content current_user)) uid current_user rest"

definition stored_chunk :: "fs \<Rightarrow> string \<Rightarrow> int \<Rightarrow> bytes option" where
  "stored_chunk st uid k = read_file (chunk_dirs st) uid (chunk_filename k)"

section \<open>Properties of starting a session\<close>

lemma floor_div_ceiling:
  fixes a b :: int
  assumes "0 < b"
  shows "(a + b - 1) div b = \<lceil>real_of_int a / real_of_int b\<rceil>"
proof -
  define q where "q = (- a) div b"
  define r where "r = (- a) mod b"
  have r: "0 \<le> r" "r < b" using assms by (simp_all add: r_def)
  have "- a = b * q + r" by (simp add: q_def r_def)
  then have "a + b - 1 = b * (- q) + (b - 1 - r)" by (simp add: algebra_simps)
  moreover have "0 \<le> b - 1 - r" "b - 1 - r < b" using r by simp_all
  ultimately have "(a + b - 1) div b = - q"
    by (rule int_div_pos_eq)
  then show ?thesis
    by (simp add: q_def ceiling_divide_eq_div)
qed

text \<open>
  Claim C4. For every declared file size and every chunk size greater than zero,
  \<open>start_chunked_upload\<close> answers whenever the mime type is allowed and the size is within
  the limit, and every answer it gives (and the session it stores) carries
  \<open>total_chunks\<close> equal to the ceiling of the real quotient file size / chunk size.
\<close>

theorem start_total_chunks_is_ceiling:
  assumes "0 < csize"
  shows "(mtype \<in> ALLOWED_AUDIO_TYPES \<and> fsize \<le> MAX_FILE_SIZE \<longrightarrow>
            (\<exists>r st1. start_chunked_upload st uuid1 uuid2 now fname fsize mtype csize u = (Inr r, st1))) \<and>
         (\<forall>r st1. start_chunked_upload st uuid1 uuid2 now fname fsize mtype csize u = (Inr r, st1) \<longrightarrow>
            start_total_chunks r = \<lceil>real_of_int fsize / real_of_int csize\<rceil> \<and>
            (\<exists>s. session_files st1 uuid1 = Some s \<and>
                 total_chunks s = \<lceil>real_of_int fsize / real_of_int csize\<rceil>))"
  using assms floor_div_ceiling [OF assms, of fsize]
  by (auto simp: start_chunked_upload_def Let_def split: if_splits)

theorem start_total_chunks_is_ceiling_witness:
  "(0::int) < 5000000 \<and>
   (\<exists>r st1. start_chunked_upload empty_fs ''u1'' ''f1'' ''2024-01-01'' ''rec.wav'' 12000000
               ''audio/wav'' 5000000 ''alice'' = (Inr r, st1) \<and>
            start_total_chunks r = 3 \<and>
            (\<exists>s. session_files st1 ''u1'' = Some s \<and> total_chunks s = 3))"
proof -
  have pos: "(0::int) < 5000000" by simp
  have ok: "''audio/wav'' \<in> ALLOWED_AUDIO_TYPES \<and> (12000000::int) \<le> MAX_FILE_SIZE"
    by (simp add: ALLOWED_AUDIO_TYPES_def MAX_FILE_SIZE_def)
  have c: "\<lceil>real_of_int 12000000 / real_of_int 5000000\<rceil> = (3::int)"
    by (simp add: ceiling_divide_eq_div)
  note th = start_total_chunks_is_ceiling [OF pos, of "''audio/wav''" 12000000 empty_fs
      "''u1''" "''f1''" "''2024-01-01''" "''rec.wav''" "''alice''"]
  from th ok obtain r st1 where
    e: "start_chunked_upload empty_fs ''u1'' ''f1'' ''2024-01-01'' ''rec.wav'' 12000000
               ''audio/wav'' 5000000 ''alice'' = (Inr r, st1)"
    by blast
  with th c have "start_total_chunks r = 3 \<and>
      (\<exists>s. session_files st1 ''u1'' = Some s \<and> total_chunks s = 3)"
    by metis
  with e pos show ?thesis by blast
qed

section \<open>Sessions in reachable states\<close>









lemmas api_defs = start_chunked_upload_def upload_chunk_def upload_chunk_try_def
  complete_chunked_upload_def complete_chunked_upload_try_def rmtree_def os_remove_def
  write_file_def read_file_def empty_fs_def ALLOWED_AUDIO_TYPES_def MAX_FILE_SIZE_def Let_def



lemma example_started_session:
  "session_files example_started ''u1'' = Some example_session"
  by (simp add: example_started_def example_session_def api_defs)

lemma example_one_of_two_session:
  "session_files example_one_of_two ''u1'' = Some (example_session\<lparr>uploaded_chunks := [1]\<rparr>)"
  by (simp add: example_one_of_two_def example_started_def example_session_def api_defs)


text \<open>
  Run one after the other from a state in which no session file is open for rewriting,
  the segments of an \<open>upload_chunk\<close> request are the request handled at once.
\<close>

lemma upload_chunk_as_segments:
  "upload_chunk st uid n c u =
     (case upload_chunk_begin \<lparr>disk = st, empty_sessions = {}\<rparr> uid n u of
        Inl answer \<Rightarrow> (answer, st)
      | Inr session \<Rightarrow>
          (case upload_chunk_finish
                  (upload_chunk_open
                     (upload_chunk_save \<lparr>disk = st, empty_sessions = {}\<rparr> uid n c) uid)
                  uid n c session of
             (r, io) \<Rightarrow> (Inr r, disk io)))"
  by (simp add: upload_chunk_def upload_chunk_try_def upload_chunk_begin_def upload_chunk_save_def
      upload_chunk_open_def upload_chunk_finish_def Let_def split: option.splits)

lemma upload_chunk_segments_close:
  "empty_sessions (snd (upload_chunk_finish
       (upload_chunk_open (upload_chunk_save \<lparr>disk = st, empty_sessions = {}\<rparr> uid n c) uid)
       uid n c session)) = {}"
  by (simp add: upload_chunk_save_def upload_chunk_open_def upload_chunk_finish_def Let_def)








section \<open>The chunk size is not validated\<close>

text \<open>
  Claim C6 says that a chunk size not greater than zero is rejected with an invalid
  argument error and creates no session. The source has no check of the chunk size: with
  chunk size -1 the request succeeds and stores a session of -8 chunks.
\<close>

theorem start_negative_chunk_size_counterexample:
  "\<exists>r st1. start_chunked_upload empty_fs ''u1'' ''f1'' ''2024-01-01'' ''rec.wav'' 10 ''audio/wav'' (- 1)
              ''alice'' = (Inr r, st1) \<and>
           start_total_chunks r = - 8 \<and> session_files st1 ''u1'' \<noteq> None"
  by (simp add: api_defs)

text \<open>
  Claim C6, amended. \<open>start_chunked_upload\<close> does not validate the chunk size. With an
  allowed mime type and a size within the limit: for chunk size 0 the division raises
  \<open>ZeroDivisionError\<close>, which no handler catches, and no session is stored; for a
  negative chunk size the request succeeds and stores a session whose \<open>total_chunks\<close> is
  the floor quotient (file size + chunk size - 1) div chunk size.
\<close>

theorem start_chunk_size_not_validated:
  assumes "csize \<le> 0" and "mtype \<in> ALLOWED_AUDIO_TYPES" and "fsize \<le> MAX_FILE_SIZE"
  shows "(csize = 0 \<longrightarrow>
            start_chunked_upload st uuid1 uuid2 now fname fsize mtype csize u =
              (Inl ZeroDivisionError, st)) \<and>
         (csize < 0 \<longrightarrow>
            (\<exists>r st1. start_chunked_upload st uuid1 uuid2 now fname fsize mtype csize u = (Inr r, st1) \<and>
               start_total_chunks r = (fsize + csize - 1) div csize \<and>
               (\<exists>s. session_files st1 uuid1 = Some s \<and> chunk_size s = csize \<and>
                    total_chunks s = (fsize + csize - 1) div csize \<and> uploaded_chunks s = [])))"
  using assms by (simp add: start_chunked_upload_def Let_def)

theorem start_chunk_size_not_validated_witness:
  "start_chunked_upload empty_fs ''u1'' ''f1'' ''2024-01-01'' ''rec.wav'' 10 ''audio/wav'' 0 ''alice'' =
     (Inl ZeroDivisionError, empty_fs) \<and>
   (\<exists>r st1. start_chunked_upload empty_fs ''u1'' ''f1'' ''2024-01-01'' ''rec.wav'' 10 ''audio/wav'' (- 3)
              ''alice'' = (Inr r, st1) \<and>
            start_total_chunks r = - 2 \<and>
            (\<exists>s. session_files st1 ''u1'' = Some s \<and> chunk_size s = - 3 \<and> total_chunks s = - 2))"
proof -
  have a: "''audio/wav'' \<in> ALLOWED_AUDIO_TYPES" and b: "(10::int) \<le> MAX_FILE_SIZE"
    by (simp_all add: ALLOWED_AUDIO_TYPES_def MAX_FILE_SIZE_def)
  have z: "(0::int) \<le> 0" and n: "(- 3::int) \<le> 0" by simp_all
  have d: "((10::int) + - 3 - 1) div - 3 = - 2" by simp
  from start_chunk_size_not_validated [OF z a b, of empty_fs "''u1''" "''f1''" "''2024-01-01''" "''rec.wav''" "''alice''"]
  have p0: "start_chunked_upload empty_fs ''u1'' ''f1'' ''2024-01-01'' ''rec.wav'' 10 ''audio/wav'' 0 ''alice'' =
     (Inl ZeroDivisionError, empty_fs)" by simp
  from start_chunk_size_not_validated [OF n a b, of empty_fs "''u1''" "''f1''" "''2024-01-01''" "''rec.wav''" "''alice''"] d
  have "\<exists>r st1. start_chunked_upload empty_fs ''u1'' ''f1'' ''2024-01-01'' ''rec.wav'' 10 ''audio/wav'' (- 3)
              ''alice'' = (Inr r, st1) \<and>
            start_total_chunks r = - 2 \<and>
            (\<exists>s. session_files st1 ''u1'' = Some s \<and> chunk_size s = - 3 \<and> total_chunks s = - 2)"
    by auto
  with p0 show ?thesis by blast
qed

section \<open>The single-request upload\<close>

lemma validate_wav:
  "validate_audio_file \<lparr>uf_filename = Some ''big.wav'', uf_content_type = Some ''audio/wav'',
      uf_size = sz, uf_content = c\<rparr> = None"
proof -
  have "snd (splitext (lower ''big.wav'')) = ''.wav''" by code_simp
  then show ?thesis
    by (simp add: validate_audio_file_def ALLOWED_AUDIO_TYPES_def valid_extensions_def Let_def)
qed

lemma ext_big_wav: "file_extension ''big.wav'' = ''.wav''"
  by code_simp

text \<open>
  Claim C9. When the reported size of the uploaded file is absent or zero,
  \<open>upload_audio_file\<close> makes no size check: a file that passes the validation of type and
  extension is accepted whatever the length of its content, the content is stored and its
  length is reported.
\<close>

theorem upload_audio_file_skips_size_check:
  assumes "validate_audio_file file = None" and "uf_size file = None \<or> uf_size file = Some 0"
  shows "\<exists>r st1. upload_audio_file st uuid1 file u = (Inr r, st1) \<and>
           resp_file_size r = int (length (uf_content file)) \<and>
           read_file (audio_dirs st1) u
             (uuid1 @ file_extension (case uf_filename file of None \<Rightarrow> [] | Some name \<Rightarrow> name)) =
             Some (uf_content file)"
  using assms
  by (auto simp: upload_audio_file_def Let_def read_file_def write_file_def)

theorem upload_audio_file_skips_size_check_witness:
  "validate_audio_file \<lparr>uf_filename = Some ''big.wav'', uf_content_type = Some ''audio/wav'',
      uf_size = None, uf_content = replicate 104857601 0\<rparr> = None \<and>
   int (length (replicate 104857601 (0::8 word))) > MAX_FILE_SIZE \<and>
   (\<exists>r st1. upload_audio_file empty_fs ''f9''
        \<lparr>uf_filename = Some ''big.wav'', uf_content_type = Some ''audio/wav'',
          uf_size = None, uf_content = replicate 104857601 0\<rparr> ''alice'' = (Inr r, st1) \<and>
      resp_file_size r = 104857601 \<and>
      read_file (audio_dirs st1) ''alice'' ''f9.wav'' = Some (replicate 104857601 0))"
proof -
  let ?f = "\<lparr>uf_filename = Some ''big.wav'', uf_content_type = Some ''audio/wav'',
          uf_size = None, uf_content = replicate 104857601 (0::8 word)\<rparr>"
  have v: "validate_audio_file ?f = None" by (rule validate_wav)
  have z: "uf_size ?f = None \<or> uf_size ?f = Some 0" by simp
  have big: "int (length (replicate 104857601 (0::8 word))) > MAX_FILE_SIZE"
    by (simp add: MAX_FILE_SIZE_def)
  from upload_audio_file_skips_size_check [OF v z, of empty_fs "''f9''" "''alice''"]
  have "\<exists>r st1. upload_audio_file empty_fs ''f9'' ?f ''alice'' = (Inr r, st1) \<and>
      resp_file_size r = 104857601 \<and>
      read_file (audio_dirs st1) ''alice'' ''f9.wav'' = Some (replicate 104857601 0)"
    by (simp add: ext_big_wav)
  with v big show ?thesis by blast
qed

section \<open>Failures of the cleanup\<close>

lemma chunk_filename_1: "chunk_filename 1 = ''chunk_0001''"
  by code_simp

lemma chunk_filename_2: "chunk_filename 2 = ''chunk_0002''"
  by code_simp

lemma upto_1_1: "[1..1] = [1::int]"
  by (simp add: upto.simps)

lemma upto_1_2: "[1..2] = [1, 2::int]"
  by (simp add: upto.simps)

lemma ext_wav: "file_extension ''rec.wav'' = ''.wav''" "file_extension ''memo.wav'' = ''.wav''"
  "file_extension ''empty.wav'' = ''.wav''"
  by code_simp+

text \<open>
  Claim C7 says that a failure of the cleanup after the final file is written is logged
  and the request still succeeds. In the source both deletions are inside the
  \<^verbatim>\<open>try\<close>: when \<^verbatim>\<open>shutil.rmtree\<close> is refused the request fails with status 500, although
  the final file holds all the bytes.
\<close>

theorem complete_rmtree_refused_counterexample:
  "fst (complete_chunked_upload \<lparr>rmtree_fails = True, remove_fails = False\<rparr>
          example_all_uploaded ''u2'' ''alice'') =
     Inl (HTTPException 500 (Complete_failed PermissionError)) \<and>
   read_file (audio_dirs (snd (complete_chunked_upload \<lparr>rmtree_fails = True, remove_fails = False\<rparr>
          example_all_uploaded ''u2'' ''alice''))) ''alice'' ''f2.wav'' = Some [1, 2, 3]"
  by (simp add: example_all_uploaded_def api_defs upto_1_1 chunk_filename_1 ext_wav)

text \<open>
  Claim C7, amended. Once \<open>complete_chunked_upload\<close> has written the final file, it
  reports success exactly when the deletion of the chunk directory and the deletion of
  the session file both succeed. A failure of either is returned to the caller as status
  500; the final file stays written and the session file stays in place.
\<close>

theorem complete_cleanup_failure_surfaced:
  assumes "session_files st uid = Some s" and "user_id s = u"
    and "uploaded_chunks s = [1..total_chunks s]"
    and "combine_chunks st uid [1..total_chunks s] [] 0 = (None, final, n)"
    and "complete_chunked_upload env st uid u = (r, st1)"
  shows "read_file (audio_dirs st1) u (file_id s @ file_extension (filename s)) = Some final \<and>
    ((\<exists>resp. r = Inr resp) =
       (chunk_dirs st uid \<noteq> None \<and> \<not> rmtree_fails env \<and> \<not> remove_fails env)) \<and>
    (chunk_dirs st uid = None \<longrightarrow>
       r = Inl (HTTPException 500 (Complete_failed FileNotFoundError)) \<and>
       session_files st1 uid = Some s) \<and>
    (chunk_dirs st uid \<noteq> None \<and> rmtree_fails env \<longrightarrow>
       r = Inl (HTTPException 500 (Complete_failed PermissionError)) \<and>
       session_files st1 uid = Some s \<and> chunk_dirs st1 uid = chunk_dirs st uid) \<and>
    (chunk_dirs st uid \<noteq> None \<and> \<not> rmtree_fails env \<and> remove_fails env \<longrightarrow>
       r = Inl (HTTPException 500 (Complete_failed PermissionError)) \<and>
       session_files st1 uid = Some s \<and> chunk_dirs st1 uid = None)"
  using assms
  by (auto simp: complete_chunked_upload_def complete_chunked_upload_try_def Let_def rmtree_def
      os_remove_def read_file_def write_file_def split: option.splits if_splits)

lemma example_all_uploaded_session:
  "session_files example_all_uploaded ''u2'' =
     Some \<lparr>upload_id = ''u2'', file_id = ''f2'', user_id = ''alice'', filename = ''memo.wav'',
      file_size = 3, mime_type = ''audio/wav'', chunk_size = 5, total_chunks = 1,
      uploaded_chunks = [1], created_at = ''2024-01-01''\<rparr>"
  by (simp add: example_all_uploaded_def api_defs)

theorem complete_cleanup_failure_surfaced_witness:
  "fst (complete_chunked_upload \<lparr>rmtree_fails = False, remove_fails = True\<rparr>
          example_all_uploaded ''u2'' ''alice'') =
     Inl (HTTPException 500 (Complete_failed PermissionError)) \<and>
   read_file (audio_dirs (snd (complete_chunked_upload \<lparr>rmtree_fails = False, remove_fails = True\<rparr>
          example_all_uploaded ''u2'' ''alice''))) ''alice'' ''f2.wav'' = Some [1, 2, 3] \<and>
   session_files (snd (complete_chunked_upload \<lparr>rmtree_fails = False, remove_fails = True\<rparr>
          example_all_uploaded ''u2'' ''alice'')) ''u2'' \<noteq> None"
proof -
  let ?env = "\<lparr>rmtree_fails = False, remove_fails = True\<rparr>"
  let ?s = "\<lparr>upload_id = ''u2'', file_id = ''f2'', user_id = ''alice'', filename = ''memo.wav'',
      file_size = 3, mime_type = ''audio/wav'', chunk_size = 5, total_chunks = 1,
      uploaded_chunks = [1], created_at = ''2024-01-01''\<rparr>"
  have h2: "user_id ?s = ''alice''" by simp
  have h3: "uploaded_chunks ?s = [1..total_chunks ?s]" by (simp add: upto_1_1)
  have h4: "combine_chunks example_all_uploaded ''u2'' [1..total_chunks ?s] [] 0 = (None, [1, 2, 3], 3)"
    by (simp add: upto_1_1 chunk_filename_1 example_all_uploaded_def api_defs)
  have h5: "complete_chunked_upload ?env example_all_uploaded ''u2'' ''alice'' =
      (fst (complete_chunked_upload ?env example_all_uploaded ''u2'' ''alice''),
       snd (complete_chunked_upload ?env example_all_uploaded ''u2'' ''alice''))"
    by simp
  have d: "chunk_dirs example_all_uploaded ''u2'' \<noteq> None"
    by (simp add: example_all_uploaded_def api_defs)
  from complete_cleanup_failure_surfaced [OF example_all_uploaded_session h2 h3 h4 h5] d
  show ?thesis by (simp add: ext_wav)
qed

section \<open>Assembly in the order of the chunk numbers\<close>

lemma digit_val_digit_char:
  assumes "d < 10"
  shows "digit_val (digit_char d) = d"
proof -
  from assms have "d \<in> {0, 1, 2, 3, 4, 5, 6, 7, 8, 9}" by auto
  then show ?thesis
    by (elim insertE emptyE) (simp_all add: digit_val_def digit_char_def)
qed

lemma nat_of_str_snoc: "nat_of_str (s @ [c]) = 10 * nat_of_str s + digit_val c"
  by (simp add: nat_of_str_def)

lemma nat_of_str_str_nat: "nat_of_str (str_nat n) = n"
proof (induction n rule: str_nat.induct)
  case (1 n)
  show ?case
  proof (cases "n < 10")
    case True
    then show ?thesis
      by (subst str_nat.simps) (simp add: digit_val_digit_char nat_of_str_def)
  next
    case False
    with 1 have "nat_of_str (str_nat (n div 10)) = n div 10" by simp
    with False show ?thesis
      by (subst str_nat.simps) (simp add: nat_of_str_snoc digit_val_digit_char)
  qed
qed

lemma nat_of_str_zeros: "nat_of_str (replicate k CHR ''0'' @ s) = nat_of_str s"
proof -
  have "foldl (\<lambda>acc c. 10 * acc + digit_val c) 0 (replicate k CHR ''0'') = 0"
    by (induction k) (simp_all add: digit_val_def)
  then show ?thesis by (simp add: nat_of_str_def)
qed

lemma chunk_filename_inj:
  assumes "0 \<le> a" and "0 \<le> b" and "chunk_filename a = chunk_filename b"
  shows "a = b"
proof -
  from assms have "zfill 4 (str_nat (nat a)) = zfill 4 (str_nat (nat b))"
    by (simp add: chunk_filename_def format_04d_def)
  then have "nat_of_str (zfill 4 (str_nat (nat a))) = nat_of_str (zfill 4 (str_nat (nat b)))"
    by simp
  then have "nat a = nat b"
    by (simp add: zfill_def nat_of_str_zeros nat_of_str_str_nat)
  with assms show ?thesis by simp
qed

lemma upload_chunk_skip:
  assumes "session_files st uid = Some s" and "user_id s = u"
    and "n < 1 \<or> n > total_chunks s \<or> n \<in> set (uploaded_chunks s)"
  shows "snd (upload_chunk st uid n c u) = st"
  using assms by (auto simp: upload_chunk_def upload_chunk_try_def)

lemma upload_chunk_new:
  assumes "session_files st uid = Some s" and "user_id s = u"
    and "1 \<le> n" and "n \<le> total_chunks s" and "n \<notin> set (uploaded_chunks s)"
  shows "session_files (snd (upload_chunk st uid n c u)) uid =
           Some (s\<lparr>uploaded_chunks := sort (uploaded_chunks s @ [n])\<rparr>)"
    and "stored_chunk (snd (upload_chunk st uid n c u)) uid n = Some c"
    and "0 \<le> k \<Longrightarrow> k \<noteq> n \<Longrightarrow>
           stored_chunk (snd (upload_chunk st uid n c u)) uid k = stored_chunk st uid k"
proof -
  from assms show "session_files (snd (upload_chunk st uid n c u)) uid =
           Some (s\<lparr>uploaded_chunks := sort (uploaded_chunks s @ [n])\<rparr>)"
    by (simp add: upload_chunk_def upload_chunk_try_def Let_def)
  from assms show "stored_chunk (snd (upload_chunk st uid n c u)) uid n = Some c"
    by (simp add: upload_chunk_def upload_chunk_try_def Let_def stored_chunk_def read_file_def
        write_file_def)
  assume "0 \<le> k" "k \<noteq> n"
  with assms(3) have "chunk_filename k \<noteq> chunk_filename n"
    using chunk_filename_inj [of k n] by auto
  with assms show "stored_chunk (snd (upload_chunk st uid n c u)) uid k = stored_chunk st uid k"
    by (simp add: upload_chunk_def upload_chunk_try_def Let_def stored_chunk_def read_file_def
        write_file_def split: option.splits)
qed

lemma upload_chunks_effect:
  assumes "session_files st uid = Some s" and "user_id s = u" and "session_ok s"
  shows "\<exists>s1. session_files (upload_chunks st uid u calls) uid = Some s1 \<and>
           s1 = s\<lparr>uploaded_chunks := uploaded_chunks s1\<rparr> \<and> session_ok s1 \<and>
           set (uploaded_chunks s1) =
             set (uploaded_chunks s) \<union> {k \<in> fst ` set calls. 1 \<le> k \<and> k \<le> total_chunks s} \<and>
           (\<forall>k \<in> set (uploaded_chunks s).
              stored_chunk (upload_chunks st uid u calls) uid k = stored_chunk st uid k) \<and>
           (\<forall>k \<in> set (uploaded_chunks s1) - set (uploaded_chunks s).
              stored_chunk (upload_chunks st uid u calls) uid k = map_of calls k)"
  using assms
proof (induction calls arbitrary: st s)
  case Nil
  then show ?case by simp
next
  case (Cons call rest)
  obtain n c where call: "call = (n, c)" by (cases call)
  let ?st1 = "snd (upload_chunk st uid n c u)"
  show ?case
  proof (cases "n < 1 \<or> n > total_chunks s \<or> n \<in> set (uploaded_chunks s)")
    case True
    from upload_chunk_skip [OF Cons.prems(1,2) True] have same: "?st1 = st" .
    from Cons.IH [OF Cons.prems] obtain s1 where
      s1: "session_files (upload_chunks st uid u rest) uid = Some s1"
        "s1 = s\<lparr>uploaded_chunks := uploaded_chunks s1\<rparr>" "session_ok s1"
        "set (uploaded_chunks s1) =
           set (uploaded_chunks s) \<union> {k \<in> fst ` set rest. 1 \<le> k \<and> k \<le> total_chunks s}"
        "\<forall>k \<in> set (uploaded_chunks s).
              stored_chunk (upload_chunks st uid u rest) uid k = stored_chunk st uid k"
        "\<forall>k \<in> set (uploaded_chunks s1) - set (uploaded_chunks s).
              stored_chunk (upload_chunks st uid u rest) uid k = map_of rest k"
      by blast
    have a: "set (uploaded_chunks s1) =
             set (uploaded_chunks s) \<union>
               {k \<in> fst ` set (call # rest). 1 \<le> k \<and> k \<le> total_chunks s}"
      using s1(4) True call by auto
    have b: "\<forall>k \<in> set (uploaded_chunks s1) - set (uploaded_chunks s).
              stored_chunk (upload_chunks st uid u rest) uid k = map_of (call # rest) k"
      using s1(4,6) True call by auto
    from s1(1,2,3,5) a b same call show ?thesis
      by auto
  next
    case False
    then have n: "1 \<le> n" "n \<le> total_chunks s" "n \<notin> set (uploaded_chunks s)" by auto
    let ?s1 = "s\<lparr>uploaded_chunks := sort (uploaded_chunks s @ [n])\<rparr>"
    note new = upload_chunk_new [OF Cons.prems(1,2) n, where c = c]
    have ok1: "session_ok ?s1" using Cons.prems(3) n by (auto simp: session_ok_def)
    have u1: "user_id ?s1 = u" using Cons.prems(2) by simp
    from Cons.IH [OF new(1) u1 ok1] obtain s2 where
      s2: "session_files (upload_chunks ?st1 uid u rest) uid = Some s2"
        "s2 = ?s1\<lparr>uploaded_chunks := uploaded_chunks s2\<rparr>" "session_ok s2"
        "set (uploaded_chunks s2) =
           set (uploaded_chunks ?s1) \<union> {k \<in> fst ` set rest. 1 \<le> k \<and> k \<le> total_chunks ?s1}"
        "\<forall>k \<in> set (uploaded_chunks ?s1).
              stored_chunk (upload_chunks ?st1 uid u rest) uid k = stored_chunk ?st1 uid k"
        "\<forall>k \<in> set (uploaded_chunks s2) - set (uploaded_chunks ?s1).
              stored_chunk (upload_chunks ?st1 uid u rest) uid k = map_of rest k"
      by blast
    have pos: "\<forall>k \<in> set (uploaded_chunks s). 1 \<le> k"
      using Cons.prems(3) by (auto simp: session_ok_def)
    have a: "s2 = s\<lparr>uploaded_chunks := uploaded_chunks s2\<rparr>"
      using s2(2) by (metis session_data.surjective session_data.update_convs(9))
    have b: "set (uploaded_chunks s2) =
             set (uploaded_chunks s) \<union>
               {k \<in> fst ` set (call # rest). 1 \<le> k \<and> k \<le> total_chunks s}"
      using s2(4) n call by auto
    have c: "\<forall>k \<in> set (uploaded_chunks s).
              stored_chunk (upload_chunks ?st1 uid u rest) uid k = stored_chunk st uid k"
    proof
      fix k assume k: "k \<in> set (uploaded_chunks s)"
      with n pos have "k \<noteq> n" "0 \<le> k" by auto
      from new(3) [OF this(2,1)] s2(5) k show
        "stored_chunk (upload_chunks ?st1 uid u rest) uid k = stored_chunk st uid k"
        by simp
    qed
    have d: "\<forall>k \<in> set (uploaded_chunks s2) - set (uploaded_chunks s).
              stored_chunk (upload_chunks ?st1 uid u rest) uid k = map_of (call # rest) k"
    proof
      fix k assume k: "k \<in> set (uploaded_chunks s2) - set (uploaded_chunks s)"
      show "stored_chunk (upload_chunks ?st1 uid u rest) uid k = map_of (call # rest) k"
      proof (cases "k = n")
        case True
        with s2(5) new(2) call show ?thesis by simp
      next
        case False
        with k have "k \<in> set (uploaded_chunks s2) - set (uploaded_chunks ?s1)" by simp
        with s2(6) False call show ?thesis by simp
      qed
    qed
    from s2(1,3) a b c d call show ?thesis by auto
  qed
qed

lemma combine_chunks_all:
  assumes "\<forall>k \<in> set ks. stored_chunk st uid k = Some (f k)"
  shows "combine_chunks st uid ks final n0 =
           (None, final @ concat (map f ks), n0 + int (length (concat (map f ks))))"
  using assms
  by (induction ks arbitrary: final n0) (simp_all add: stored_chunk_def)

lemma uploaded_all_is_upto:
  assumes "session_ok s" and "set (uploaded_chunks s) = {1..t}"
  shows "uploaded_chunks s = [1..t]"
  using assms
  by (intro sorted_distinct_set_unique) (simp_all add: session_ok_def)

text \<open>
  From a session that lists no chunk yet, after any sequence of \<open>upload_chunk\<close> requests
  that covers every chunk number of a session of at least one chunk, whatever their order
  and whatever is repeated or out of range among them, \<open>complete_chunked_upload\<close> succeeds:
  the final file is the concatenation, in ascending chunk number, of the bytes first
  accepted for each number, and the reported size is its length.
\<close>

lemma assembly_in_chunk_order:
  assumes "session_files st uid = Some s" and "uploaded_chunks s = []" and "user_id s = u"
    and "1 \<le> total_chunks s" and "{1..total_chunks s} \<subseteq> fst ` set calls"
  shows "\<exists>r st1.
           complete_chunked_upload no_faults (upload_chunks st uid u calls) uid u = (Inr r, st1) \<and>
           resp_file_size r =
             int (length (concat (map (\<lambda>k. the (map_of calls k)) [1..total_chunks s]))) \<and>
           read_file (audio_dirs st1) u (file_id s @ file_extension (filename s)) =
             Some (concat (map (\<lambda>k. the (map_of calls k)) [1..total_chunks s])) \<and>
           session_files st1 uid = None \<and> chunk_dirs st1 uid = None"
proof -
  let ?st = "upload_chunks st uid u calls"
  let ?t = "total_chunks s"
  let ?f = "\<lambda>k. the (map_of calls k)"
  have ok: "session_ok s" using assms(2) by (simp add: session_ok_def)
  from upload_chunks_effect [OF assms(1,3) ok, of calls] obtain s1 where
    s1: "session_files ?st uid = Some s1"
      "s1 = s\<lparr>uploaded_chunks := uploaded_chunks s1\<rparr>" "session_ok s1"
      "set (uploaded_chunks s1) =
         set (uploaded_chunks s) \<union> {k \<in> fst ` set calls. 1 \<le> k \<and> k \<le> ?t}"
      "\<forall>k \<in> set (uploaded_chunks s1) - set (uploaded_chunks s).
         stored_chunk ?st uid k = map_of calls k"
    by blast
  have fields: "total_chunks s1 = ?t" "user_id s1 = u" "file_id s1 = file_id s"
    "filename s1 = filename s"
    using s1(2) assms(3) by (metis session_data.select_convs session_data.surjective
        session_data.update_convs(9))+
  have set1: "set (uploaded_chunks s1) = {1..?t}"
    using s1(4) assms(2,5) by auto
  have all: "uploaded_chunks s1 = [1..?t]"
    by (rule uploaded_all_is_upto [OF s1(3) set1])
  have stored: "\<forall>k \<in> set [1..?t]. stored_chunk ?st uid k = Some (?f k)"
  proof
    fix k assume k: "k \<in> set [1..?t]"
    with assms(5) have "k \<in> fst ` set calls" by auto
    then have "map_of calls k \<noteq> None" by (simp add: map_of_eq_None_iff)
    moreover from k set1 s1(5) assms(2) have "stored_chunk ?st uid k = map_of calls k" by simp
    ultimately show "stored_chunk ?st uid k = Some (?f k)" by auto
  qed
  have comb: "combine_chunks ?st uid [1..?t] [] 0 =
       (None, concat (map ?f [1..?t]), int (length (concat (map ?f [1..?t]))))"
    using combine_chunks_all [OF stored, of "[]" 0] by simp
  from stored assms(4) have "stored_chunk ?st uid 1 \<noteq> None" by simp
  then have dir: "chunk_dirs ?st uid \<noteq> None"
    by (auto simp: stored_chunk_def read_file_def split: option.splits)
  from s1(1) fields all comb dir show ?thesis
    by (auto simp: complete_chunked_upload_def complete_chunked_upload_try_def Let_def rmtree_def
        os_remove_def no_faults_def read_file_def write_file_def)
qed

text \<open>An instance: a file of 12 bytes in chunks of 5, the chunks arriving in the order
  2, 1, 3. The final file starts with the bytes of chunk 1.\<close>

lemma assembly_example:
  "\<exists>r st1.
     complete_chunked_upload no_faults
       (upload_chunks
          (snd (start_chunked_upload empty_fs ''u5'' ''f5'' ''2024-01-01'' ''talk.wav'' 12 ''audio/wav''
                  5 ''alice''))
          ''u5'' ''alice'' [(2, [6, 7, 8, 9, 10]), (1, [1, 2, 3, 4, 5]), (3, [11, 12])])
       ''u5'' ''alice'' = (Inr r, st1) \<and>
     resp_file_size r = 12 \<and>
     read_file (audio_dirs st1) ''alice'' ''f5.wav'' = Some [1, 2, 3, 4, 5, 6, 7, 8, 9, 10, 11, 12]"
proof -
  let ?s = "\<lparr>upload_id = ''u5'', file_id = ''f5'', user_id = ''alice'', filename = ''talk.wav'',
      file_size = 12, mime_type = ''audio/wav'', chunk_size = 5, total_chunks = 3,
      uploaded_chunks = [], created_at = ''2024-01-01''\<rparr>"
  let ?st = "snd (start_chunked_upload empty_fs ''u5'' ''f5'' ''2024-01-01'' ''talk.wav'' 12
      ''audio/wav'' 5 ''alice'')"
  let ?calls = "[(2, [6, 7, 8, 9, 10]), (1, [1, 2, 3, 4, 5]), (3, [11, 12])] :: (int \<times> bytes) list"
  have upto: "[1..3] = [1, 2, 3::int]" by (simp add: upto.simps)
  have ext: "file_extension ''talk.wav'' = ''.wav''" by code_simp
  have h1: "session_files ?st ''u5'' = Some ?s" by (simp add: api_defs)
  have h5: "{1..total_chunks ?s} \<subseteq> fst ` set ?calls"
  proof
    fix k :: int assume "k \<in> {1..total_chunks ?s}"
    then have "k = 1 \<or> k = 2 \<or> k = 3" by auto
    then show "k \<in> fst ` set ?calls" by auto
  qed
  from assembly_in_chunk_order [OF h1 _ _ _ h5, of "''alice''"]
  show ?thesis by (simp add: upto ext) blast
qed

section \<open>Where the handlers and the cleanup go wrong\<close>

lemma ext_webm: "file_extension ''silence.webm'' = ''.webm''"
  by code_simp

lemma upto_1_0: "[1..0] = ([]::int list)"
  by (simp add: upto.simps)

text \<open>
  Claim C1 says that for every session in which every chunk number 1..\<open>total_chunks\<close>
  has been accepted, completion writes the concatenation of the chunks in ascending order
  and returns its length. For a session of at least one chunk this is
  \<open>assembly_in_chunk_order\<close>. A session of no chunk (declared size 0) lists every chunk
  number of 1..0; completion writes the empty concatenation, and then
  \<^verbatim>\<open>shutil.rmtree\<close> raises on the chunk directory that no upload ever created: the
  request ends with status 500 and returns no size.
\<close>

theorem complete_all_of_no_chunks_fails:
  "(\<exists>s. session_files example_empty_recording ''u4'' = Some s \<and> user_id s = ''carol'' \<and>
        total_chunks s = 0 \<and> uploaded_chunks s = [1..total_chunks s]) \<and>
   fst (complete_chunked_upload no_faults example_empty_recording ''u4'' ''carol'') =
     Inl (HTTPException 500 (Complete_failed FileNotFoundError)) \<and>
   read_file (audio_dirs (snd (complete_chunked_upload no_faults example_empty_recording ''u4''
      ''carol''))) ''carol'' ''f4.webm'' = Some (concat (map (\<lambda>k. []) [1..0]))"
  by (simp add: example_empty_recording_def api_defs upto_1_0 ext_webm no_faults_def)

text \<open>
  Claim C2 says that completion fails with the list of missing chunk numbers when a chunk
  is missing. The source raises status 400 with the sorted missing numbers inside the
  \<^verbatim>\<open>try\<close>, and the handler \<^verbatim>\<open>except Exception\<close> replaces it: with chunk 2 of 2
  missing, the caller receives status 500.
\<close>

theorem complete_missing_chunk_becomes_500:
  "complete_chunked_upload no_faults example_one_of_two ''u1'' ''alice'' =
     (Inl (HTTPException 500 (Complete_failed (HTTPException 400 (Missing_chunks [2])))),
      example_one_of_two)"
proof -
  have m: "sorted_list_of_set (set [1, 2] - set [1::int]) = [2]" by code_simp
  show ?thesis
    using example_one_of_two_session m
    by (simp add: complete_chunked_upload_def complete_chunked_upload_try_def Let_def
        example_session_def upto_1_2)
qed

text \<open>
  Claim C5 says that \<open>upload_chunk\<close> reports an unknown session, a foreign session and a
  chunk number out of range each as its own kind of failure. The source raises the
  statuses 404, 403 and 400 inside the \<^verbatim>\<open>try\<close>, and the handler
  \<^verbatim>\<open>except Exception\<close> replaces each: the caller receives status 500 in all three cases.
\<close>

theorem upload_chunk_failures_become_500:
  "upload_chunk empty_fs ''nope'' 1 [1] ''alice'' =
     (Inl (HTTPException 500 (Chunk_upload_failed (HTTPException 404 Upload_session_not_found))),
      empty_fs) \<and>
   upload_chunk example_started ''u1'' 1 [1] ''bob'' =
     (Inl (HTTPException 500 (Chunk_upload_failed (HTTPException 403 Access_denied))),
      example_started) \<and>
   upload_chunk example_started ''u1'' 3 [1] ''alice'' =
     (Inl (HTTPException 500 (Chunk_upload_failed (HTTPException 400 (Invalid_chunk_number 2)))),
      example_started)"
proof -
  have a: "session_files empty_fs ''nope'' = None" by (simp add: empty_fs_def)
  have b: "user_id example_session = ''alice''" "total_chunks example_session = 2"
    by (simp_all add: example_session_def)
  show ?thesis
    using a b example_started_session
    by (simp add: upload_chunk_def upload_chunk_try_def)
qed

text \<open>
  Claim C10 says that a session started with declared size 0 has no chunk and completes
  at once with an empty final file and size 0. The start does answer \<open>total_chunks = 0\<close>
  and completion does write the empty file, but the chunk directory was never created, so
  \<^verbatim>\<open>shutil.rmtree\<close> raises \<open>FileNotFoundError\<close>: completion ends with status 500 and the
  session file stays.
\<close>

theorem complete_zero_chunk_session_fails:
  "fst (start_chunked_upload empty_fs ''u3'' ''f3'' ''2024-01-01'' ''empty.wav'' 0 ''audio/wav''
          CHUNK_SIZE ''bob'') =
     Inr \<lparr>start_upload_id = ''u3'', start_file_id = ''f3'', start_total_chunks = 0,
           start_chunk_size = CHUNK_SIZE, start_message = ''Chunked upload session started''\<rparr> \<and>
   fst (complete_chunked_upload no_faults example_zero_chunks ''u3'' ''bob'') =
     Inl (HTTPException 500 (Complete_failed FileNotFoundError)) \<and>
   read_file (audio_dirs (snd (complete_chunked_upload no_faults example_zero_chunks ''u3'' ''bob'')))
     ''bob'' ''f3.wav'' = Some [] \<and>
   session_files (snd (complete_chunked_upload no_faults example_zero_chunks ''u3'' ''bob'')) ''u3''
     \<noteq> None"
  by (simp add: example_zero_chunks_def api_defs CHUNK_SIZE_def upto_1_0 ext_wav no_faults_def)

end
